theory Spec2Isabelle
  imports Complex_Main
begin

section \<open>Values, errors and library objects\<close>

text \<open>
  The script \<^verbatim>\<open>a3_kadakia_111304945.py\<close> is glue around pandas, nltk, gensim, numpy and
  scikit-learn.  The glue is embedded function by function; every library call is a field
  of the record \<open>library\<close> below and may raise, so each embedded function returns
  \<open>error + result\<close> with \<open>Inl\<close> the exception that ends the run.

  Python floats are read as real numbers (no rounding, no overflow).  The one place where
  the script can leave the finite numbers is the division \<^verbatim>\<open>temp/len(review)\<close> of a numpy
  array by zero, which numpy answers with \<^verbatim>\<open>nan\<close> or an infinity and a warning, never with
  an exception; the type \<open>npfloat\<close> keeps those values apart.
\<close>

datatype error =
    FileNotFoundError string
  | KeyError string
  | IndexError
  | ValueError
  | NameError string
  | AttributeError string
  | LibraryError string  \<comment> \<open>any other exception of a library\<close>

datatype npfloat = Finite real | NaN | PosInf | NegInf

text \<open>A cell of a pandas DataFrame as \<^verbatim>\<open>read_csv\<close> delivers it: text, a number, or missing.\<close>

datatype cell = CStr string | CInt int | CFloat real | CNaN

record dataframe =
  columns :: "string list"
  rows :: "cell list list"

text \<open>
  A trained gensim model, as far as the script looks at it: the vocabulary list
  \<^verbatim>\<open>wv.index2word\<close> and the lookup \<^verbatim>\<open>wv[word]\<close>.
\<close>

record w2v_model =
  index2word :: "string list"
  wv :: "string \<rightharpoonup> real list"

text \<open>
  The library calls of the script.  \<open>'m\<close> is the type of a fitted Ridge model, \<open>'t\<close> the
  type of a fitted PCA transform.
\<close>

record ('m, 't) library =
  read_csv :: "string \<Rightarrow> error + dataframe"
  word_tokenize :: "string \<Rightarrow> error + string list"
  str_lower :: "string \<Rightarrow> string"
  int_of_str :: "string \<Rightarrow> int option"
  Word2Vec :: "string list list \<Rightarrow> nat \<Rightarrow> error + w2v_model"
  Ridge_fit :: "real \<Rightarrow> npfloat list list \<Rightarrow> int list \<Rightarrow> error + 'm"
  Ridge_predict :: "'m \<Rightarrow> npfloat list list \<Rightarrow> error + real list"
  MAE :: "int list \<Rightarrow> real list \<Rightarrow> error + real"
  pearsonr :: "int list \<Rightarrow> real list \<Rightarrow> error + real \<times> real"
  PCA_fit :: "nat \<Rightarrow> npfloat list list \<Rightarrow> error + 't"
  PCA_transform :: "'t \<Rightarrow> npfloat list list \<Rightarrow> error + real list list"

section \<open>Stage 1.1: readCSV\<close>

text \<open>
  \<^verbatim>\<open>dataFile["reviewText"]\<close> selects a column by its name and raises KeyError when the
  frame has no such column.
\<close>

fun column_position :: "string \<Rightarrow> string list \<Rightarrow> nat option" where
  "column_position name [] = None"
| "column_position name (c # cs) =
     (if c = name then Some 0 else map_option Suc (column_position name cs))"

text \<open>
  The cell of a row in column \<open>j\<close>; \<^verbatim>\<open>read_csv\<close> fills the fields a short line lacks
  with NaN.
\<close>

definition cell_at :: "cell list \<Rightarrow> nat \<Rightarrow> cell" where
  "cell_at line j = (if j < length line then line ! j else CNaN)"

text \<open>\<^verbatim>\<open>.replace("", np.nan)\<close> on column \<open>j\<close>, for one row.\<close>

definition replace_empty :: "nat \<Rightarrow> cell list \<Rightarrow> cell list" where
  "replace_empty j line = (if cell_at line j = CStr [] then line[j := CNaN] else line)"

text \<open>
  The two pandas steps before the loop: the rows that \<^verbatim>\<open>iterrows\<close> will visit, when the
  column \<^verbatim>\<open>reviewText\<close> is at position \<open>j\<close>.
\<close>

definition dropna_reviewText :: "nat \<Rightarrow> cell list list \<Rightarrow> cell list list" where
  "dropna_reviewText j lines = filter (\<lambda>line. cell_at line j \<noteq> CNaN) (map (replace_empty j) lines)"

text \<open>
  A row whose cell in column \<open>j\<close> is the empty text or missing: the rows the
  specification wants excluded.
\<close>

definition review_missing :: "nat \<Rightarrow> cell list \<Rightarrow> bool" where
  "review_missing j line = (cell_at line j = CStr [] \<or> cell_at line j = CNaN)"

text \<open>
  \<^verbatim>\<open>line[k]\<close> on a row of a frame with \<open>n\<close> columns: by position, IndexError beyond the
  last column.
\<close>

definition line_getitem :: "nat \<Rightarrow> cell list \<Rightarrow> nat \<Rightarrow> error + cell" where
  "line_getitem n line k = (if k < n then Inr (cell_at line k) else Inl IndexError)"

text \<open>
  Python's \<^verbatim>\<open>int(...)\<close> on a cell: a number is truncated towards zero, text is parsed as
  an integer literal (the library's \<open>int_of_str\<close>), NaN and other text raise ValueError.
\<close>

definition py_int :: "('m, 't) library \<Rightarrow> cell \<Rightarrow> error + int" where
  "py_int lib c =
     (case c of
        CInt i \<Rightarrow> Inr i
      | CFloat x \<Rightarrow> Inr (if 0 \<le> x then \<lfloor>x\<rfloor> else \<lceil>x\<rceil>)
      | CNaN \<Rightarrow> Inl ValueError
      | CStr s \<Rightarrow> (case int_of_str lib s of None \<Rightarrow> Inl ValueError | Some i \<Rightarrow> Inr i))"

text \<open>
  \<^verbatim>\<open>word_tokenize(line[5].lower()) if type(line[5]) == str else ""\<close>; the empty string
  of the \<^verbatim>\<open>else\<close> branch is a review without tokens.
\<close>

definition review_tokens :: "('m, 't) library \<Rightarrow> cell \<Rightarrow> error + string list" where
  "review_tokens lib c =
     (case c of
        CStr s \<Rightarrow> word_tokenize lib (str_lower lib s)
      | CInt i \<Rightarrow> Inr []
      | CFloat x \<Rightarrow> Inr []
      | CNaN \<Rightarrow> Inr [])"

text \<open>One round of \<^verbatim>\<open>for _, line in dataFile.iterrows()\<close>: the three values appended.\<close>

definition read_line :: "('m, 't) library \<Rightarrow> nat \<Rightarrow> cell list \<Rightarrow> error + int \<times> int \<times> string list" where
  "read_line lib n line =
     (case line_getitem n line 0 of
        Inl e \<Rightarrow> Inl e
      | Inr c0 \<Rightarrow>
     (case py_int lib c0 of
        Inl e \<Rightarrow> Inl e
      | Inr item_id \<Rightarrow>
     (case line_getitem n line 1 of
        Inl e \<Rightarrow> Inl e
      | Inr c1 \<Rightarrow>
     (case py_int lib c1 of
        Inl e \<Rightarrow> Inl e
      | Inr rating \<Rightarrow>
     (case line_getitem n line 5 of
        Inl e \<Rightarrow> Inl e
      | Inr c5 \<Rightarrow>
     (case review_tokens lib c5 of
        Inl e \<Rightarrow> Inl e
      | Inr review \<Rightarrow> Inr (item_id, rating, review)))))))"

fun read_lines ::
  "('m, 't) library \<Rightarrow> nat \<Rightarrow> cell list list \<Rightarrow> int list \<Rightarrow> int list \<Rightarrow> string list list
     \<Rightarrow> error + int list \<times> int list \<times> string list list" where
  "read_lines lib n [] item_ids ratings reviews = Inr (item_ids, ratings, reviews)"
| "read_lines lib n (line # lines) item_ids ratings reviews =
     (case read_line lib n line of
        Inl e \<Rightarrow> Inl e
      | Inr (item_id, rating, review) \<Rightarrow>
          read_lines lib n lines (item_ids @ [item_id]) (ratings @ [rating]) (reviews @ [review]))"

text \<open>
  \<open>readCSV\<close> returns the list \<^verbatim>\<open>[item_ids, reviews, ratings]\<close>, here a triple in the same
  order.
\<close>

definition readCSV ::
  "('m, 't) library \<Rightarrow> string \<Rightarrow> error + int list \<times> string list list \<times> int list" where
  "readCSV lib fileName =
     (case read_csv lib fileName of
        Inl e \<Rightarrow> Inl e
      | Inr dataFile \<Rightarrow>
     (case column_position ''reviewText'' (columns dataFile) of
        None \<Rightarrow> Inl (KeyError ''reviewText'')
      | Some j \<Rightarrow>
     (case read_lines lib (length (columns dataFile)) (dropna_reviewText j (rows dataFile)) [] [] [] of
        Inl e \<Rightarrow> Inl e
      | Inr (item_ids, ratings, reviews) \<Rightarrow> Inr (item_ids, reviews, ratings))))"

section \<open>Stage 1.3: trainWord2VecModel\<close>

text \<open>The gensim constructor and its \<^verbatim>\<open>train\<close> call are one library call here.\<close>

definition trainWord2VecModel :: "('m, 't) library \<Rightarrow> string list list \<Rightarrow> nat \<Rightarrow> error + w2v_model" where
  "trainWord2VecModel lib reviews min_count = Word2Vec lib reviews min_count"

section \<open>Stage 1.4: getFeatures\<close>

text \<open>
  \<^verbatim>\<open>wv[word]\<close> raises KeyError for a word without a vector.
\<close>

definition wv_getitem :: "w2v_model \<Rightarrow> string \<Rightarrow> error + real list" where
  "wv_getitem w2v word = (case wv w2v word of None \<Rightarrow> Inl (KeyError word) | Some v \<Rightarrow> Inr v)"

text \<open>
  \<^verbatim>\<open>temp += w2v_model.wv[word]\<close>.  \<open>temp\<close> starts as the Python list \<^verbatim>\<open>[0] * 128\<close>; a list
  has no numeric \<^verbatim>\<open>+=\<close>, so Python hands the first addition to numpy, which adds
  coordinate by coordinate and leaves an array in \<open>temp\<close>; every later \<^verbatim>\<open>+=\<close> is numpy's
  in-place addition.  Both accept a right operand of the same length or of length one
  (broadcast) and raise ValueError for any other shape.
\<close>

definition np_add :: "real list \<Rightarrow> real list \<Rightarrow> error + real list" where
  "np_add temp v =
     (if length v = length temp then Inr (map2 (+) temp v)
      else if length v = 1 then Inr (map (\<lambda>x. x + v ! 0) temp)
      else Inl ValueError)"

text \<open>
  \<^verbatim>\<open>temp/len(review)\<close>, one coordinate: numpy's true division by a Python integer.
\<close>

definition np_true_divide :: "real \<Rightarrow> nat \<Rightarrow> npfloat" where
  "np_true_divide x n =
     (if n = 0 then (if x = 0 then NaN else if 0 < x then PosInf else NegInf)
      else Finite (x / real n))"

text \<open>The inner loop \<^verbatim>\<open>for word in review\<close>, with its two variables.\<close>

fun sum_words :: "w2v_model \<Rightarrow> string list \<Rightarrow> real list \<Rightarrow> nat \<Rightarrow> error + real list \<times> nat" where
  "sum_words w2v [] temp counter = Inr (temp, counter)"
| "sum_words w2v (word # review) temp counter =
     (if word \<in> set (index2word w2v) then
        (case wv_getitem w2v word of
           Inl e \<Rightarrow> Inl e
         | Inr v \<Rightarrow>
             (case np_add temp v of
                Inl e \<Rightarrow> Inl e
              | Inr temp' \<Rightarrow> sum_words w2v review temp' (counter + 1)))
      else sum_words w2v review temp counter)"

text \<open>The body of the outer loop: the feature vector of one review.\<close>

definition getFeatures_review :: "w2v_model \<Rightarrow> string list \<Rightarrow> error + npfloat list" where
  "getFeatures_review w2v review =
     (case sum_words w2v review (replicate 128 0) 1 of
        Inl e \<Rightarrow> Inl e
      | Inr (temp, counter) \<Rightarrow> Inr (map (\<lambda>x. np_true_divide x (length review)) temp))"

fun getFeatures_loop ::
  "w2v_model \<Rightarrow> string list list \<Rightarrow> npfloat list list \<Rightarrow> error + npfloat list list" where
  "getFeatures_loop w2v [] train_x = Inr train_x"
| "getFeatures_loop w2v (review # reviews) train_x =
     (case getFeatures_review w2v review of
        Inl e \<Rightarrow> Inl e
      | Inr row \<Rightarrow> getFeatures_loop w2v reviews (train_x @ [row]))"

definition getFeatures :: "w2v_model \<Rightarrow> string list list \<Rightarrow> error + npfloat list list" where
  "getFeatures w2v reviews = getFeatures_loop w2v reviews []"

text \<open>
  An EmbeddingSpace of the specification: every word of the vocabulary has a vector, of
  dimension 128 (\<^verbatim>\<open>size=128\<close> in \<^verbatim>\<open>trainWord2VecModel\<close>).
\<close>

definition embedding_space :: "w2v_model \<Rightarrow> bool" where
  "embedding_space w2v =
     list_all (\<lambda>w. case wv w2v w of None \<Rightarrow> False | Some v \<Rightarrow> length v = 128) (index2word w2v)"

text \<open>The vector the space gives a word; all zeros for a word outside the vocabulary.\<close>

definition word_vector :: "w2v_model \<Rightarrow> string \<Rightarrow> real list" where
  "word_vector w2v w = (case wv w2v w of None \<Rightarrow> replicate 128 0 | Some v \<Rightarrow> v)"

section \<open>Stage 1.5: buildRatingPredictor\<close>

definition listC :: "real list" where
  "listC = [0.0001, 0.001, 0.01, 0.1, 1, 10, 100, 1000, 10000]"

text \<open>
  The library calls of one round of \<^verbatim>\<open>for C in listC\<close>, in the order of the script:
  \<^verbatim>\<open>Ridge(random_state=42, alpha=C).fit\<close>, \<^verbatim>\<open>predict\<close>, \<^verbatim>\<open>MAE\<close>, \<^verbatim>\<open>ss.pearsonr\<close>.  The
  result is the model, \<open>acc\<close> and \<^verbatim>\<open>pearsonr[0]\<close>.
\<close>

definition fit_candidate ::
  "('m, 't) library \<Rightarrow> npfloat list list \<Rightarrow> npfloat list list \<Rightarrow> int list \<Rightarrow> int list \<Rightarrow> real
     \<Rightarrow> error + 'm \<times> real \<times> real" where
  "fit_candidate lib train_x test_x train_y test_y C =
     (case Ridge_fit lib C train_x train_y of
        Inl e \<Rightarrow> Inl e
      | Inr model \<Rightarrow>
          (case Ridge_predict lib model test_x of
             Inl e \<Rightarrow> Inl e
           | Inr y_pred \<Rightarrow>
               (case MAE lib test_y y_pred of
                  Inl e \<Rightarrow> Inl e
                | Inr acc \<Rightarrow>
                    (case pearsonr lib test_y y_pred of
                       Inl e \<Rightarrow> Inl e
                     | Inr pr \<Rightarrow> Inr (model, acc, fst pr)))))"

text \<open>The loop, with its three variables \<open>minAccuracy\<close>, \<open>bestModel\<close>, \<open>best_pearsonr\<close>.\<close>

fun sweep ::
  "('m, 't) library \<Rightarrow> npfloat list list \<Rightarrow> npfloat list list \<Rightarrow> int list \<Rightarrow> int list \<Rightarrow> real list
     \<Rightarrow> real \<Rightarrow> 'm option \<Rightarrow> real \<Rightarrow> error + real \<times> 'm option \<times> real" where
  "sweep lib train_x test_x train_y test_y [] minAccuracy bestModel best_pearsonr =
     Inr (minAccuracy, bestModel, best_pearsonr)"
| "sweep lib train_x test_x train_y test_y (C # Cs) minAccuracy bestModel best_pearsonr =
     (case fit_candidate lib train_x test_x train_y test_y C of
        Inl e \<Rightarrow> Inl e
      | Inr (model, acc, r) \<Rightarrow>
          if acc < 1 \<and> acc \<le> minAccuracy
          then sweep lib train_x test_x train_y test_y Cs acc (Some model) r
          else sweep lib train_x test_x train_y test_y Cs minAccuracy bestModel best_pearsonr)"

definition buildRatingPredictor ::
  "('m, 't) library \<Rightarrow> npfloat list list \<Rightarrow> npfloat list list \<Rightarrow> int list \<Rightarrow> int list
     \<Rightarrow> error + 'm option" where
  "buildRatingPredictor lib train_x test_x train_y test_y =
     (case sweep lib train_x test_x train_y test_y listC 1 None 0.35 of
        Inl e \<Rightarrow> Inl e
      | Inr (minAccuracy, bestModel, best_pearsonr) \<Rightarrow> Inr bestModel)"


section \<open>Stage 2.3: runPCAMatrix\<close>

text \<open>
  \<open>user_reps\<close> is a dictionary from user to averaged feature vector, in insertion order;
  \<^verbatim>\<open>list(user_reps.values())\<close> is the list of its values.  The function returns
  \<open>v_matrix\<close>, the output of \<^verbatim>\<open>transform\<close>; \<open>user_PCA\<close> is a local variable.
\<close>

definition runPCAMatrix ::
  "('m, 't) library \<Rightarrow> (string \<times> npfloat list) list \<Rightarrow> error + real list list" where
  "runPCAMatrix lib user_reps =
     (case PCA_fit lib 3 (map snd user_reps) of
        Inl e \<Rightarrow> Inl e
      | Inr user_PCA \<Rightarrow> PCA_transform lib user_PCA (map snd user_reps))"

section \<open>The main script, stage 1\<close>

text \<open>
  Lines 271 to 279.  \<open>argv\<close> is \<^verbatim>\<open>sys.argv\<close>: the script name and the positional
  arguments.
\<close>

definition chooseFiles :: "string list \<Rightarrow> string \<times> string" where
  "chooseFiles argv =
     (if length argv < 3 \<or> length argv > 3 then (''food_train.csv'', ''food_trial.csv'')
      else (argv ! 1, argv ! 2))"

text \<open>Python's \<^verbatim>\<open>sub in s\<close> on strings.\<close>

fun str_in :: "string \<Rightarrow> string \<Rightarrow> bool" where
  "str_in sub [] = (sub = [])"
| "str_in sub (c # s) = (take (length sub) (c # s) = sub \<or> str_in sub s)"

text \<open>The two assignments inside each of the three \<^verbatim>\<open>if\<close> blocks of lines 289 to 299.\<close>

definition train_both ::
  "('m, 't) library \<Rightarrow> string list list \<Rightarrow> string list list \<Rightarrow> nat
     \<Rightarrow> error + (w2v_model \<times> w2v_model) option" where
  "train_both lib training_reviews trial_reviews min_count =
     (case trainWord2VecModel lib training_reviews min_count of
        Inl e \<Rightarrow> Inl e
      | Inr train_w2v_model \<Rightarrow>
          (case trainWord2VecModel lib trial_reviews min_count of
             Inl e \<Rightarrow> Inl e
           | Inr test_w2v_model \<Rightarrow> Inr (Some (train_w2v_model, test_w2v_model))))"

text \<open>
  Lines 289 to 299: what the names \<open>train_w2v_model\<close> and \<open>test_w2v_model\<close> are bound to
  afterwards; \<open>None\<close> when no block has run and the names are unbound.
\<close>

definition bind_models ::
  "('m, 't) library \<Rightarrow> string \<Rightarrow> string list list \<Rightarrow> string list list
     \<Rightarrow> error + (w2v_model \<times> w2v_model) option" where
  "bind_models lib trial_file training_reviews trial_reviews =
     (case (if str_in ''food_'' trial_file
            then train_both lib training_reviews trial_reviews 5 else Inr None) of
        Inl e \<Rightarrow> Inl e
      | Inr bound1 \<Rightarrow>
     (case (if str_in ''music_'' trial_file
            then train_both lib training_reviews trial_reviews 10 else Inr bound1) of
        Inl e \<Rightarrow> Inl e
      | Inr bound2 \<Rightarrow>
          (if str_in ''musicAndPetsup_'' trial_file
           then train_both lib training_reviews trial_reviews 20 else Inr bound2)))"

text \<open>
  Lines 302 to 315, with both models bound: features, the predictor, its predictions, and
  the two numbers the script prints.  \<^verbatim>\<open>np.asarray(..., dtype=np.int)\<close> leaves the integer
  ratings as they are.  \<^verbatim>\<open>rating_model.predict\<close> on \<^verbatim>\<open>None\<close> raises AttributeError.
\<close>

definition rate_trial ::
  "('m, 't) library \<Rightarrow> w2v_model \<Rightarrow> w2v_model
     \<Rightarrow> int list \<times> string list list \<times> int list \<Rightarrow> int list \<times> string list list \<times> int list
     \<Rightarrow> error + real list \<times> real \<times> real \<times> real" where
  "rate_trial lib train_w2v_model test_w2v_model training_data trial_data =
     (case getFeatures train_w2v_model (fst (snd training_data)) of
        Inl e \<Rightarrow> Inl e
      | Inr train_x \<Rightarrow>
     (case getFeatures test_w2v_model (fst (snd trial_data)) of
        Inl e \<Rightarrow> Inl e
      | Inr test_x \<Rightarrow>
     (case buildRatingPredictor lib train_x test_x (snd (snd training_data)) (snd (snd trial_data)) of
        Inl e \<Rightarrow> Inl e
      | Inr None \<Rightarrow> Inl (AttributeError ''predict'')
      | Inr (Some rating_model) \<Rightarrow>
     (case Ridge_predict lib rating_model test_x of
        Inl e \<Rightarrow> Inl e
      | Inr y_pred \<Rightarrow>
     (case MAE lib (snd (snd trial_data)) y_pred of
        Inl e \<Rightarrow> Inl e
      | Inr mae \<Rightarrow>
     (case pearsonr lib (snd (snd trial_data)) y_pred of
        Inl e \<Rightarrow> Inl e
      | Inr pr \<Rightarrow> Inr (y_pred, mae, pr)))))))"

text \<open>
  Lines 271 to 315 of the script.  Using the unbound name \<open>train_w2v_model\<close> on line 302
  raises NameError.  The result is \<open>y_pred\<close> and the printed error and correlation.  The
  rest of the script (the spot checks of lines 318 to 339 and stage 2) comes after these
  lines and does not read the command line again.
\<close>

definition main_stage1 :: "('m, 't) library \<Rightarrow> string list \<Rightarrow> error + real list \<times> real \<times> real \<times> real" where
  "main_stage1 lib argv =
     (case chooseFiles argv of (training_file, trial_file) \<Rightarrow>
     (case readCSV lib training_file of
        Inl e \<Rightarrow> Inl e
      | Inr training_data \<Rightarrow>
     (case readCSV lib trial_file of
        Inl e \<Rightarrow> Inl e
      | Inr trial_data \<Rightarrow>
     (case bind_models lib trial_file (fst (snd training_data)) (fst (snd trial_data)) of
        Inl e \<Rightarrow> Inl e
      | Inr None \<Rightarrow> Inl (NameError ''train_w2v_model'')
      | Inr (Some (train_w2v_model, test_w2v_model)) \<Rightarrow>
          rate_trial lib train_w2v_model test_w2v_model training_data trial_data))))"

section \<open>A small library and small files, for running the script\<close>

text \<open>An embedding space with the one word \<^verbatim>\<open>good\<close>.\<close>

definition toy_w2v :: w2v_model where
  "toy_w2v = \<lparr>index2word = [''good''], wv = [''good'' \<mapsto> replicate 128 1]\<rparr>"

definition ascii_lower :: "char \<Rightarrow> char" where
  "ascii_lower c =
     (case map_of (zip ''ABCDEFGHIJKLMNOPQRSTUVWXYZ'' ''abcdefghijklmnopqrstuvwxyz'') c of
        None \<Rightarrow> c
      | Some l \<Rightarrow> l)"

text \<open>A tokenizer that splits at blanks.\<close>

fun split_words :: "string \<Rightarrow> string \<Rightarrow> string list" where
  "split_words [] w = (if w = [] then [] else [w])"
| "split_words (c # cs) w =
     (if c = CHR '' '' then (if w = [] then [] else [w]) @ split_words cs []
      else split_words cs (w @ [c]))"

text \<open>\<^verbatim>\<open>int\<close> on text, for unsigned decimal literals.\<close>

fun parse_digits :: "string \<Rightarrow> int \<Rightarrow> int option" where
  "parse_digits [] n = Some n"
| "parse_digits (c # cs) n =
     (case map_of (zip ''0123456789'' [0, 1, 2, 3, 4, 5, 6, 7, 8, 9]) c of
        None \<Rightarrow> None
      | Some d \<Rightarrow> parse_digits cs (10 * n + d))"

definition review_columns :: "string list" where
  "review_columns = [''item_id'', ''rating'', ''vote'', ''verified'', ''user_id'', ''reviewText'']"

definition food_train_frame :: dataframe where
  "food_train_frame =
     \<lparr>columns = review_columns,
      rows =
        [[CInt 1, CInt 5, CInt 0, CStr ''True'', CStr ''u1'', CStr ''Good product''],
         [CInt 2, CInt 1, CInt 0, CStr ''True'', CStr ''u2'', CStr ''bad item''],
         [CInt 3, CInt 4, CInt 0, CStr ''False'', CStr ''u1'', CNaN],
         [CInt 4, CFloat 3, CInt 2, CStr ''True'', CStr ''u3'', CStr ''average'']]\<rparr>"

definition food_trial_frame :: dataframe where
  "food_trial_frame =
     \<lparr>columns = review_columns,
      rows =
        [[CInt 548, CInt 1, CInt 0, CStr ''True'', CStr ''u2'', CStr ''Bad product''],
         [CInt 7, CInt 2, CInt 0, CStr ''True'', CStr ''u4'', CStr ''''],
         [CInt 8, CInt 1, CInt 1, CStr ''True'', CStr ''u1'', CStr ''bad item'']]\<rparr>"

text \<open>A file whose review column holds only numbers, so that pandas reads it as numbers.\<close>

definition numbers_frame :: dataframe where
  "numbers_frame =
     \<lparr>columns = review_columns,
      rows = [[CInt 1, CInt 5, CInt 0, CStr ''True'', CStr ''u1'', CInt 10]]\<rparr>"

definition toy_read_csv :: "string \<Rightarrow> error + dataframe" where
  "toy_read_csv path =
     (if path = ''food_train.csv'' then Inr food_train_frame
      else if path = ''food_trial.csv'' then Inr food_trial_frame
      else if path = ''numbers.csv'' then Inr numbers_frame
      else Inl (FileNotFoundError path))"

definition toy_MAE :: "int list \<Rightarrow> real list \<Rightarrow> error + real" where
  "toy_MAE y_true y_pred =
     (if length y_true = length y_pred \<and> y_true \<noteq> []
      then Inr (sum_list (map2 (\<lambda>a b. \<bar>real_of_int a - b\<bar>) y_true y_pred) / real (length y_true))
      else Inl ValueError)"

text \<open>
  A Ridge model is its own strength and predicts it for every row; a fitted PCA is its
  number of components and projects every row to the origin.
\<close>

definition toy_library :: "(real, nat) library" where
  "toy_library =
     \<lparr>read_csv = toy_read_csv,
      word_tokenize = (\<lambda>s. Inr (split_words s [])),
      str_lower = map ascii_lower,
      int_of_str = (\<lambda>s. if s = [] then None else parse_digits s 0),
      Word2Vec = (\<lambda>sentences min_count. Inr toy_w2v),
      Ridge_fit = (\<lambda>C X y. Inr C),
      Ridge_predict = (\<lambda>model X. Inr (map (\<lambda>row. model) X)),
      MAE = toy_MAE,
      pearsonr = (\<lambda>y p. Inr (0, 1)),
      PCA_fit = (\<lambda>n X. if n \<le> length X then Inr n else Inl ValueError),
      PCA_transform = (\<lambda>n X. Inr (map (\<lambda>row. replicate n 0) X))\<rparr>"

section \<open>Properties of readCSV\<close>

lemma dropna_reviewText_filter:
  "dropna_reviewText j lines = filter (\<lambda>line. \<not> review_missing j line) lines"
  by (induction lines)
     (auto simp: dropna_reviewText_def replace_empty_def review_missing_def cell_at_def)

lemma read_line_Inr:
  assumes "read_line lib n line = Inr (item_id, rating, review)"
  shows "5 < n" and "py_int lib (cell_at line 0) = Inr item_id"
    and "py_int lib (cell_at line 1) = Inr rating"
    and "review_tokens lib (cell_at line 5) = Inr review"
  using assms
  by (auto simp: read_line_def line_getitem_def split: sum.splits if_splits)

lemma read_lines_appends:
  assumes "read_lines lib n lines item_ids ratings reviews = Inr (item_ids', ratings', reviews')"
  shows "\<exists>is rs vs. item_ids' = item_ids @ is \<and> ratings' = ratings @ rs \<and> reviews' = reviews @ vs
           \<and> length is = length lines \<and> length rs = length lines \<and> length vs = length lines
           \<and> (\<forall>i<length lines. read_line lib n (lines ! i) = Inr (is ! i, rs ! i, vs ! i))"
  using assms
proof (induction lines arbitrary: item_ids ratings reviews)
  case Nil
  then show ?case by simp
next
  case (Cons line lines)
  from Cons.prems obtain a b c where
    here: "read_line lib n line = Inr (a, b, c)" and
    rest: "read_lines lib n lines (item_ids @ [a]) (ratings @ [b]) (reviews @ [c]) =
             Inr (item_ids', ratings', reviews')"
    by (auto split: sum.splits)
  from Cons.IH [OF rest] obtain "is" rs vs where
    t: "item_ids' = (item_ids @ [a]) @ is" "ratings' = (ratings @ [b]) @ rs"
       "reviews' = (reviews @ [c]) @ vs"
       "length is = length lines" "length rs = length lines" "length vs = length lines"
       "\<forall>i<length lines. read_line lib n (lines ! i) = Inr (is ! i, rs ! i, vs ! i)"
    by blast
  have "\<forall>i<length (line # lines).
          read_line lib n ((line # lines) ! i) = Inr ((a # is) ! i, (b # rs) ! i, (c # vs) ! i)"
    using here t(7) by (simp add: nth_Cons split: nat.splits)
  with t(1-6) show ?case
    by (intro exI [of _ "a # is"] exI [of _ "b # rs"] exI [of _ "c # vs"]) simp
qed

lemma readCSV_Inr:
  assumes "readCSV lib fileName = Inr (item_ids, reviews, ratings)"
  shows "\<exists>dataFile j. read_csv lib fileName = Inr dataFile
           \<and> column_position ''reviewText'' (columns dataFile) = Some j
           \<and> length item_ids = length (dropna_reviewText j (rows dataFile))
           \<and> length ratings = length (dropna_reviewText j (rows dataFile))
           \<and> length reviews = length (dropna_reviewText j (rows dataFile))
           \<and> (\<forall>i<length (dropna_reviewText j (rows dataFile)).
                 read_line lib (length (columns dataFile)) (dropna_reviewText j (rows dataFile) ! i) =
                   Inr (item_ids ! i, ratings ! i, reviews ! i))"
proof -
  from assms obtain dataFile j where
    df: "read_csv lib fileName = Inr dataFile"
        "column_position ''reviewText'' (columns dataFile) = Some j"
        "read_lines lib (length (columns dataFile)) (dropna_reviewText j (rows dataFile)) [] [] [] =
           Inr (item_ids, ratings, reviews)"
    by (auto simp: readCSV_def split: sum.splits option.splits)
  from read_lines_appends [OF df(3)] df(1,2) show ?thesis
    by auto
qed

text \<open>\<open>readCSV\<close> returns as soon as every row that is kept can be read.\<close>

lemma read_lines_returns:
  assumes "\<forall>line\<in>set lines. \<exists>x. read_line lib n line = Inr x"
  shows "\<exists>r. read_lines lib n lines item_ids ratings reviews = Inr r"
  using assms
proof (induction lines arbitrary: item_ids ratings reviews)
  case Nil
  show ?case by simp
next
  case (Cons line lines)
  then obtain a b c where "read_line lib n line = Inr (a, b, c)"
    by fastforce
  moreover from Cons have
    "\<exists>r. read_lines lib n lines (item_ids @ [a]) (ratings @ [b]) (reviews @ [c]) = Inr r"
    by simp
  ultimately show ?case by simp
qed

lemma readCSV_returns:
  assumes "read_csv lib fileName = Inr dataFile"
    and "column_position ''reviewText'' (columns dataFile) = Some j"
    and "\<forall>line\<in>set (dropna_reviewText j (rows dataFile)).
           \<exists>x. read_line lib (length (columns dataFile)) line = Inr x"
  shows "\<exists>r. readCSV lib fileName = Inr r"
proof -
  from read_lines_returns [OF assms(3), of "[]" "[]" "[]"] obtain r where
    "read_lines lib (length (columns dataFile)) (dropna_reviewText j (rows dataFile)) [] [] [] = Inr r"
    by blast
  with assms(1,2) show ?thesis
    by (cases r) (simp add: readCSV_def)
qed

text \<open>
  C9.  Whenever \<open>readCSV\<close> returns, its three lists have the same length, the number of
  rows left after the empty and missing reviews are dropped, and position \<open>i\<close> of each
  list holds what the loop read from row \<open>i\<close> of those rows.
\<close>

theorem readCSV_parallel_lists:
  assumes "readCSV lib fileName = Inr (item_ids, reviews, ratings)"
  shows "length item_ids = length reviews \<and> length ratings = length reviews
         \<and> (\<exists>dataFile j. read_csv lib fileName = Inr dataFile
              \<and> column_position ''reviewText'' (columns dataFile) = Some j
              \<and> length reviews = length (dropna_reviewText j (rows dataFile))
              \<and> (\<forall>i<length reviews.
                    read_line lib (length (columns dataFile)) (dropna_reviewText j (rows dataFile) ! i) =
                      Inr (item_ids ! i, ratings ! i, reviews ! i)))"
  using readCSV_Inr [OF assms] by auto

lemmas readCSV_toy =
  readCSV_def toy_library_def toy_read_csv_def food_train_frame_def food_trial_frame_def
  numbers_frame_def review_columns_def dropna_reviewText_def replace_empty_def cell_at_def
  read_line_def line_getitem_def py_int_def review_tokens_def ascii_lower_def

lemma readCSV_food_trial:
  "readCSV toy_library ''food_trial.csv'' =
     Inr ([548, 8], [[''bad'', ''product''], [''bad'', ''item'']], [1, 1])"
  by (simp add: readCSV_toy)

lemma readCSV_food_train:
  "readCSV toy_library ''food_train.csv'' =
     Inr ([1, 2, 4], [[''good'', ''product''], [''bad'', ''item''], [''average'']], [5, 1, 3])"
  by (simp add: readCSV_toy)

lemma readCSV_numbers:
  "readCSV toy_library ''numbers.csv'' = Inr ([1], [[]], [5])"
  by (simp add: readCSV_toy)

theorem readCSV_parallel_lists_witness:
  "readCSV toy_library ''food_trial.csv'' =
     Inr ([548, 8], [[''bad'', ''product''], [''bad'', ''item'']], [1, 1])
   \<and> (\<exists>dataFile j. read_csv toy_library ''food_trial.csv'' = Inr dataFile
         \<and> column_position ''reviewText'' (columns dataFile) = Some j
         \<and> length (dropna_reviewText j (rows dataFile)) = 2
         \<and> read_line toy_library (length (columns dataFile)) (dropna_reviewText j (rows dataFile) ! 1) =
             Inr (8, 1, [''bad'', ''item'']))"
proof -
  have ret: "readCSV toy_library ''food_trial.csv'' =
     Inr ([548, 8], [[''bad'', ''product''], [''bad'', ''item'']], [1, 1])"
    by (rule readCSV_food_trial)
  from readCSV_parallel_lists [OF ret] obtain dataFile j where
    d: "read_csv toy_library ''food_trial.csv'' = Inr dataFile"
       "column_position ''reviewText'' (columns dataFile) = Some j"
       "length [[''bad'', ''product''], [''bad'', ''item'']] = length (dropna_reviewText j (rows dataFile))"
       "\<forall>i<length [[''bad'', ''product''], [''bad'', ''item'']].
           read_line toy_library (length (columns dataFile)) (dropna_reviewText j (rows dataFile) ! i) =
             Inr ([548, 8] ! i, [1, 1] ! i, [[''bad'', ''product''], [''bad'', ''item'']] ! i)"
    by blast
  from d(4) have "read_line toy_library (length (columns dataFile)) (dropna_reviewText j (rows dataFile) ! 1) =
             Inr (8, 1, [''bad'', ''item''])"
    by simp
  with ret d(1,2,3) show ?thesis
    by auto
qed

text \<open>
  C5, as the script behaves.  Whenever \<open>readCSV\<close> returns, the frame has a column named
  \<^verbatim>\<open>reviewText\<close>; the rows left out are exactly those whose cell in that column is the
  empty text or missing, so the returned length is the row count minus the number of
  such rows; and for every row kept, in order, the item id and the rating are \<^verbatim>\<open>int\<close> of
  the first two fields and the review is the tokenized lower-cased sixth field when that
  field is text, and the review without tokens when it is not (a number).
\<close>

theorem readCSV_corpus:
  assumes "read_csv lib fileName = Inr dataFile"
    and "readCSV lib fileName = Inr (item_ids, reviews, ratings)"
  shows "\<exists>j. column_position ''reviewText'' (columns dataFile) = Some j
         \<and> length reviews =
             length (rows dataFile) - length (filter (review_missing j) (rows dataFile))
         \<and> map (\<lambda>line. py_int lib (cell_at line 0))
               (filter (\<lambda>line. \<not> review_missing j line) (rows dataFile)) = map Inr item_ids
         \<and> map (\<lambda>line. py_int lib (cell_at line 1))
               (filter (\<lambda>line. \<not> review_missing j line) (rows dataFile)) = map Inr ratings
         \<and> map (\<lambda>line. case cell_at line 5 of
                            CStr s \<Rightarrow> word_tokenize lib (str_lower lib s)
                          | CInt i \<Rightarrow> Inr []
                          | CFloat x \<Rightarrow> Inr []
                          | CNaN \<Rightarrow> Inr [])
               (filter (\<lambda>line. \<not> review_missing j line) (rows dataFile)) = map Inr reviews"
proof -
  let ?n = "length (columns dataFile)"
  from readCSV_Inr [OF assms(2)] assms(1) obtain j where
    j: "column_position ''reviewText'' (columns dataFile) = Some j"
    and len: "length item_ids = length (dropna_reviewText j (rows dataFile))"
             "length ratings = length (dropna_reviewText j (rows dataFile))"
             "length reviews = length (dropna_reviewText j (rows dataFile))"
    and each: "\<forall>i<length (dropna_reviewText j (rows dataFile)).
                 read_line lib ?n (dropna_reviewText j (rows dataFile) ! i) =
                   Inr (item_ids ! i, ratings ! i, reviews ! i)"
    by auto
  let ?kept = "filter (\<lambda>line. \<not> review_missing j line) (rows dataFile)"
  have kept: "dropna_reviewText j (rows dataFile) = ?kept"
    by (rule dropna_reviewText_filter)
  have "length ?kept + length (filter (review_missing j) (rows dataFile)) = length (rows dataFile)"
    using sum_length_filter_compl [of "review_missing j" "rows dataFile"] by simp
  with len(3) kept have count: "length reviews =
      length (rows dataFile) - length (filter (review_missing j) (rows dataFile))"
    by simp
  have line: "read_line lib ?n (?kept ! i) = Inr (item_ids ! i, ratings ! i, reviews ! i)"
    if "i < length ?kept" for i
    using each that unfolding kept by simp
  have ids: "map (\<lambda>line. py_int lib (cell_at line 0)) ?kept = map Inr item_ids"
  proof (rule nth_equalityI)
    show "length (map (\<lambda>line. py_int lib (cell_at line 0)) ?kept) = length (map Inr item_ids)"
      using len(1) kept by simp
  next
    fix i
    assume "i < length (map (\<lambda>line. py_int lib (cell_at line 0)) ?kept)"
    then have i: "i < length ?kept" by simp
    from read_line_Inr(2) [OF line [OF i]] i len(1) kept
    show "map (\<lambda>line. py_int lib (cell_at line 0)) ?kept ! i = map Inr item_ids ! i"
      by simp
  qed
  have rats: "map (\<lambda>line. py_int lib (cell_at line 1)) ?kept = map Inr ratings"
  proof (rule nth_equalityI)
    show "length (map (\<lambda>line. py_int lib (cell_at line 1)) ?kept) = length (map Inr ratings)"
      using len(2) kept by simp
  next
    fix i
    assume "i < length (map (\<lambda>line. py_int lib (cell_at line 1)) ?kept)"
    then have i: "i < length ?kept" by simp
    from read_line_Inr(3) [OF line [OF i]] i len(2) kept
    show "map (\<lambda>line. py_int lib (cell_at line 1)) ?kept ! i = map Inr ratings ! i"
      by simp
  qed
  have "map (\<lambda>line. review_tokens lib (cell_at line 5)) ?kept = map Inr reviews"
  proof (rule nth_equalityI)
    show "length (map (\<lambda>line. review_tokens lib (cell_at line 5)) ?kept) = length (map Inr reviews)"
      using len(3) kept by simp
  next
    fix i
    assume "i < length (map (\<lambda>line. review_tokens lib (cell_at line 5)) ?kept)"
    then have i: "i < length ?kept" by simp
    from read_line_Inr(4) [OF line [OF i]] i len(3) kept
    show "map (\<lambda>line. review_tokens lib (cell_at line 5)) ?kept ! i = map Inr reviews ! i"
      by simp
  qed
  then have revs: "map (\<lambda>line. case cell_at line 5 of
                            CStr s \<Rightarrow> word_tokenize lib (str_lower lib s)
                          | CInt i \<Rightarrow> Inr []
                          | CFloat x \<Rightarrow> Inr []
                          | CNaN \<Rightarrow> Inr []) ?kept = map Inr reviews"
    by (simp add: review_tokens_def)
  from j count ids rats revs show ?thesis
    by blast
qed


theorem readCSV_corpus_witness:
  "read_csv toy_library ''food_trial.csv'' = Inr food_trial_frame
   \<and> readCSV toy_library ''food_trial.csv'' =
       Inr ([548, 8], [[''bad'', ''product''], [''bad'', ''item'']], [1, 1])
   \<and> (\<exists>j. column_position ''reviewText'' (columns food_trial_frame) = Some j
        \<and> (2::nat) = 3 - length (filter (review_missing j) (rows food_trial_frame))
        \<and> map (\<lambda>line. py_int toy_library (cell_at line 0))
              (filter (\<lambda>line. \<not> review_missing j line) (rows food_trial_frame)) = [Inr 548, Inr 8])"
proof -
  have frame: "read_csv toy_library ''food_trial.csv'' = Inr food_trial_frame"
    by (simp add: toy_library_def toy_read_csv_def)
  have ret: "readCSV toy_library ''food_trial.csv'' =
       Inr ([548, 8], [[''bad'', ''product''], [''bad'', ''item'']], [1, 1])"
    by (rule readCSV_food_trial)
  have "length (rows food_trial_frame) = 3"
    by (simp add: food_trial_frame_def)
  with readCSV_corpus [OF frame ret] frame ret show ?thesis
    by auto
qed

text \<open>
  C5 as the specification states it fails on a file whose review column holds numbers:
  the row is kept, its review field \<^verbatim>\<open>10\<close> is not text, and the script stores the empty
  review instead of the tokens of \<^verbatim>\<open>10\<close>.
\<close>

theorem readCSV_corpus_counterexample:
  "read_csv toy_library ''numbers.csv'' = Inr numbers_frame
   \<and> rows numbers_frame = [[CInt 1, CInt 5, CInt 0, CStr ''True'', CStr ''u1'', CInt 10]]
   \<and> readCSV toy_library ''numbers.csv'' = Inr ([1], [[]], [5])
   \<and> word_tokenize toy_library (str_lower toy_library ''10'') = Inr [''10'']"
  by (simp add: readCSV_numbers) (simp add: toy_library_def toy_read_csv_def numbers_frame_def ascii_lower_def)

section \<open>Properties of getFeatures\<close>

lemma np_add_same_length:
  "length v = length temp \<Longrightarrow> np_add temp v = Inr (map2 (+) temp v)"
  by (simp add: np_add_def)

lemma sum_words_embedding:
  assumes "embedding_space w2v" and "length temp = 128"
  shows "\<exists>temp'. sum_words w2v review temp counter =
           Inr (temp', counter + length (filter (\<lambda>w. w \<in> set (index2word w2v)) review))
         \<and> length temp' = 128
         \<and> (\<forall>i<128. temp' ! i = temp ! i +
              sum_list (map (\<lambda>w. word_vector w2v w ! i)
                (filter (\<lambda>w. w \<in> set (index2word w2v)) review)))"
  using assms(2)
proof (induction review arbitrary: temp counter)
  case Nil
  then show ?case by simp
next
  case (Cons word review)
  show ?case
  proof (cases "word \<in> set (index2word w2v)")
    case False
    with Cons show ?thesis by simp
  next
    case True
    with assms(1) obtain v where v: "wv w2v word = Some v" "length v = 128"
      by (auto simp: embedding_space_def list_all_iff split: option.splits)
    with Cons.prems have add: "np_add temp v = Inr (map2 (+) temp v)"
      by (simp add: np_add_same_length)
    have len: "length (map2 (+) temp v) = 128"
      using v Cons.prems by simp
    from Cons.IH [OF len, of "counter + 1"] obtain temp' where
      t: "sum_words w2v review (map2 (+) temp v) (counter + 1) =
            Inr (temp', counter + 1 + length (filter (\<lambda>w. w \<in> set (index2word w2v)) review))"
        "length temp' = 128"
        "\<forall>i<128. temp' ! i = map2 (+) temp v ! i +
              sum_list (map (\<lambda>w. word_vector w2v w ! i)
                (filter (\<lambda>w. w \<in> set (index2word w2v)) review))"
      by blast
    have "\<forall>i<128. map2 (+) temp v ! i = temp ! i + word_vector w2v word ! i"
      using v Cons.prems by (simp add: word_vector_def)
    with t True v add show ?thesis
      by (simp add: wv_getitem_def)
  qed
qed

lemma getFeatures_review_sum:
  assumes "embedding_space w2v"
  shows "\<exists>temp. length temp = 128
         \<and> getFeatures_review w2v review =
             Inr (map (\<lambda>x. np_true_divide x (length review)) temp)
         \<and> (\<forall>i<128. temp ! i =
              sum_list (map (\<lambda>w. word_vector w2v w ! i)
                (filter (\<lambda>w. w \<in> set (index2word w2v)) review)))"
proof -
  have "length (replicate 128 (0::real)) = 128" by simp
  from sum_words_embedding [OF assms this, of review 1] obtain temp where
    t: "sum_words w2v review (replicate 128 0) 1 =
          Inr (temp, 1 + length (filter (\<lambda>w. w \<in> set (index2word w2v)) review))"
       "length temp = 128"
       "\<forall>i<128. temp ! i = replicate 128 0 ! i +
              sum_list (map (\<lambda>w. word_vector w2v w ! i)
                (filter (\<lambda>w. w \<in> set (index2word w2v)) review))"
    by blast
  from t(3) have "\<forall>i<128. temp ! i =
              sum_list (map (\<lambda>w. word_vector w2v w ! i)
                (filter (\<lambda>w. w \<in> set (index2word w2v)) review))"
    by simp
  with t(1,2) show ?thesis
    by (intro exI [of _ temp]) (simp add: getFeatures_review_def)
qed

lemma embedding_space_toy: "embedding_space toy_w2v"
  by (simp add: embedding_space_def toy_w2v_def)

lemma getFeatures_review_closed:
  assumes "embedding_space w2v"
  shows "getFeatures_review w2v review =
     Inr (map (\<lambda>i. np_true_divide
                 (sum_list (map (\<lambda>w. word_vector w2v w ! i)
                    (filter (\<lambda>w. w \<in> set (index2word w2v)) review)))
                 (length review)) [0..<128])"
proof -
  from getFeatures_review_sum [OF assms, of review] obtain temp where
    t: "length temp = 128"
       "getFeatures_review w2v review = Inr (map (\<lambda>x. np_true_divide x (length review)) temp)"
       "\<forall>i<128. temp ! i =
              sum_list (map (\<lambda>w. word_vector w2v w ! i)
                (filter (\<lambda>w. w \<in> set (index2word w2v)) review))"
    by blast
  have "map (\<lambda>x. np_true_divide x (length review)) temp =
        map (\<lambda>i. np_true_divide
                 (sum_list (map (\<lambda>w. word_vector w2v w ! i)
                    (filter (\<lambda>w. w \<in> set (index2word w2v)) review)))
                 (length review)) [0..<128]"
    using t(1,3) by (simp add: list_eq_iff_nth_eq)
  with t(2) show ?thesis by simp
qed

lemma getFeatures_loop_all:
  assumes "\<forall>review\<in>set reviews. getFeatures_review w2v review = Inr (f review)"
  shows "getFeatures_loop w2v reviews train_x = Inr (train_x @ map f reviews)"
  using assms by (induction reviews arbitrary: train_x) simp_all

lemma getFeatures_single:
  "getFeatures_review w2v review = Inr fv \<Longrightarrow> getFeatures w2v [review] = Inr [fv]"
  by (simp add: getFeatures_def)

text \<open>
  C2.  For every embedding space and every list of reviews, \<open>getFeatures\<close> returns one
  row per review, and coordinate \<open>i\<close> of the row is the sum of coordinate \<open>i\<close> of the
  vectors of the tokens that are in the vocabulary (each occurrence counted), divided by
  the number of all tokens of the review: a token outside the vocabulary adds nothing to
  the sum and one to the divisor.
\<close>

theorem getFeatures_average:
  assumes "embedding_space w2v"
  shows "getFeatures w2v reviews =
     Inr (map (\<lambda>review. map (\<lambda>i. np_true_divide
                 (sum_list (map (\<lambda>w. word_vector w2v w ! i)
                    (filter (\<lambda>w. w \<in> set (index2word w2v)) review)))
                 (length review)) [0..<128]) reviews)"
  unfolding getFeatures_def
  using getFeatures_loop_all [of reviews w2v _ "[]"] getFeatures_review_closed [OF assms]
  by simp

lemma map_upt_replicate:
  assumes "\<And>i. i < n \<Longrightarrow> f i = c"
  shows "map f [0..<n] = replicate n c"
  using assms by (simp add: list_eq_iff_nth_eq)

theorem getFeatures_average_witness:
  "embedding_space toy_w2v
   \<and> getFeatures toy_w2v [[''good'', ''bad''], [''bad'']] =
       Inr [replicate 128 (Finite (1 / 2)), replicate 128 (Finite 0)]"
proof -
  let ?row = "\<lambda>review. map (\<lambda>i. np_true_divide
                 (sum_list (map (\<lambda>w. word_vector toy_w2v w ! i)
                    (filter (\<lambda>w. w \<in> set (index2word toy_w2v)) review)))
                 (length review)) [0..<128]"
  have space: "embedding_space toy_w2v"
    by (rule embedding_space_toy)
  have ret: "getFeatures toy_w2v [[''good'', ''bad''], [''bad'']] =
       Inr (map ?row [[''good'', ''bad''], [''bad'']])"
    by (rule getFeatures_average [OF space])
  have first: "?row [''good'', ''bad''] = replicate 128 (Finite (1 / 2))"
    by (rule map_upt_replicate) (simp add: toy_w2v_def word_vector_def np_true_divide_def)
  have second: "?row [''bad''] = replicate 128 (Finite 0)"
    by (rule map_upt_replicate) (simp add: toy_w2v_def word_vector_def np_true_divide_def)
  have "map ?row [[''good'', ''bad''], [''bad'']] =
       [replicate 128 (Finite (1 / 2)), replicate 128 (Finite 0)]"
    by (simp only: list.map first second)
  with ret space show ?thesis
    by (simp only: simp_thms)
qed

text \<open>
  C3 as the specification states it fails: for the review without tokens the extractor
  raises nothing and returns 128 times \<^verbatim>\<open>nan\<close>.
\<close>

theorem getFeatures_review_empty_counterexample:
  "getFeatures_review toy_w2v [] = Inr (replicate 128 NaN)
   \<and> getFeatures toy_w2v [[]] = Inr [replicate 128 NaN]"
  by (simp add: getFeatures_def getFeatures_review_def np_true_divide_def)

text \<open>
  C3, as the script behaves.  For every embedding space, a review without tokens raises
  nothing: no word is added, \<open>temp\<close> stays all zeros, and the division by
  \<^verbatim>\<open>len(review) = 0\<close> gives the vector of 128 \<^verbatim>\<open>nan\<close>, which \<open>getFeatures\<close> stores like any
  other row.
\<close>

theorem getFeatures_review_empty:
  "getFeatures_review w2v [] = Inr (replicate 128 NaN)
   \<and> getFeatures w2v [[]] = Inr [replicate 128 NaN]"
  by (simp add: getFeatures_def getFeatures_review_def np_true_divide_def)

text \<open>
  C7.  For every review with at least one token and every embedding space, the feature
  vector of the review (the row \<open>getFeatures\<close> returns for it) has exactly 128
  coordinates, all of them finite numbers; when no token of the review is in the
  vocabulary it is the vector of 128 zeros.
\<close>

theorem getFeatures_review_dimension:
  assumes "embedding_space w2v" and "review \<noteq> []"
  shows "\<exists>fv. getFeatures_review w2v review = Inr fv \<and> getFeatures w2v [review] = Inr [fv]
         \<and> length fv = 128
         \<and> (\<forall>x\<in>set fv. \<exists>r. x = Finite r)
         \<and> ((\<forall>w\<in>set review. w \<notin> set (index2word w2v)) \<longrightarrow> fv = replicate 128 (Finite 0))"
proof -
  from getFeatures_review_sum [OF assms(1), of review] obtain temp where
    t: "length temp = 128"
       "getFeatures_review w2v review = Inr (map (\<lambda>x. np_true_divide x (length review)) temp)"
       "\<forall>i<128. temp ! i =
              sum_list (map (\<lambda>w. word_vector w2v w ! i)
                (filter (\<lambda>w. w \<in> set (index2word w2v)) review))"
    by blast
  let ?fv = "map (\<lambda>x. np_true_divide x (length review)) temp"
  have fin: "\<forall>x\<in>set ?fv. \<exists>r. x = Finite r"
    using assms(2) by (auto simp: np_true_divide_def)
  have zero: "?fv = replicate 128 (Finite 0)"
    if none: "\<forall>w\<in>set review. w \<notin> set (index2word w2v)"
  proof -
    from none have "filter (\<lambda>w. w \<in> set (index2word w2v)) review = []"
      by (simp add: filter_empty_conv)
    with t(3) have "\<forall>i<128. temp ! i = 0" by simp
    with t(1) have "temp = replicate 128 0"
      by (simp add: list_eq_iff_nth_eq)
    then show ?thesis
      using assms(2) by (simp add: np_true_divide_def)
  qed
  from t(1,2) fin zero getFeatures_single [OF t(2)] show ?thesis by simp
qed

theorem getFeatures_review_dimension_witness:
  "embedding_space toy_w2v \<and> [''bad'', ''item''] \<noteq> []
   \<and> getFeatures toy_w2v [[''bad'', ''item'']] = Inr [replicate 128 (Finite 0)]"
proof -
  have space: "embedding_space toy_w2v"
    by (rule embedding_space_toy)
  have "getFeatures toy_w2v [[''bad'', ''item'']] = Inr [replicate 128 (Finite 0)]"
    using getFeatures_review_dimension [OF space, of "[''bad'', ''item'']"]
    by (auto simp: toy_w2v_def)
  with space show ?thesis by simp
qed


section \<open>Properties of buildRatingPredictor\<close>

lemma sweep_error:
  "sweep lib train_x test_x train_y test_y Cs minAccuracy bestModel best_pearsonr = Inl e
   \<Longrightarrow> \<exists>C\<in>set Cs. fit_candidate lib train_x test_x train_y test_y C = Inl e"
  by (induction Cs arbitrary: minAccuracy bestModel best_pearsonr)
     (auto split: sum.splits if_splits)













section \<open>Properties of the main script\<close>

text \<open>\<open>str_in\<close> is the substring test.\<close>

lemma take_eq_prefix: "take (length sub) s = sub \<longleftrightarrow> (\<exists>post. s = sub @ post)"
proof
  assume "take (length sub) s = sub"
  then have "s = sub @ drop (length sub) s"
    by (metis append_take_drop_id)
  then show "\<exists>post. s = sub @ post" ..
next
  assume "\<exists>post. s = sub @ post"
  then show "take (length sub) s = sub" by auto
qed

lemma str_in_substring: "str_in sub s \<longleftrightarrow> (\<exists>pre post. s = pre @ sub @ post)"
proof (induction s)
  case Nil
  show ?case by simp
next
  case (Cons c s)
  have "(\<exists>pre post. c # s = pre @ sub @ post) \<longleftrightarrow>
        (\<exists>post. c # s = sub @ post) \<or> (\<exists>pre post. s = pre @ sub @ post)"
    (is "?L \<longleftrightarrow> ?P \<or> ?R")
  proof
    assume ?L
    then obtain pre post where e: "c # s = pre @ sub @ post" by blast
    show "?P \<or> ?R"
    proof (cases pre)
      case Nil
      with e show ?thesis by auto
    next
      case (Cons a pre')
      with e have "s = pre' @ sub @ post" by simp
      then show ?thesis by blast
    qed
  next
    assume "?P \<or> ?R"
    then show ?L
    proof
      assume ?P
      then obtain post where "c # s = [] @ sub @ post" by auto
      then show ?L by blast
    next
      assume ?R
      then obtain pre post where "s = pre @ sub @ post" by blast
      then have "c # s = (c # pre) @ sub @ post" by simp
      then show ?L by blast
    qed
  qed
  with Cons.IH take_eq_prefix [of sub "c # s"] show ?case
    by simp
qed

lemmas getFeatures_toy =
  getFeatures_def getFeatures_review_def np_add_def wv_getitem_def np_true_divide_def toy_w2v_def

lemma getFeatures_food_train:
  "getFeatures toy_w2v [[''good'', ''product''], [''bad'', ''item''], [''average'']] =
     Inr [replicate 128 (Finite (1 / 2)), replicate 128 (Finite 0), replicate 128 (Finite 0)]"
  by (simp add: getFeatures_toy)

lemma getFeatures_food_trial:
  "getFeatures toy_w2v [[''bad'', ''product''], [''bad'', ''item'']] =
     Inr [replicate 128 (Finite 0), replicate 128 (Finite 0)]"
  by (simp add: getFeatures_toy)

lemma buildRatingPredictor_toy:
  "buildRatingPredictor toy_library train_x [row1, row2] train_y [1, 1] = Inr (Some 1)"
  by (simp add: buildRatingPredictor_def listC_def fit_candidate_def toy_library_def toy_MAE_def)

lemma bind_models_food_trial:
  "bind_models toy_library ''food_trial.csv'' training_reviews trial_reviews =
     Inr (Some (toy_w2v, toy_w2v))"
  by (simp add: bind_models_def train_both_def trainWord2VecModel_def toy_library_def)

lemma rate_trial_food:
  "rate_trial toy_library toy_w2v toy_w2v
     ([1, 2, 4], [[''good'', ''product''], [''bad'', ''item''], [''average'']], [5, 1, 3])
     ([548, 8], [[''bad'', ''product''], [''bad'', ''item'']], [1, 1]) = Inr ([1, 1], 0, 0, 1)"
  by (simp add: rate_trial_def getFeatures_food_train getFeatures_food_trial buildRatingPredictor_toy)
     (simp add: toy_library_def toy_MAE_def)

text \<open>
  C4 as the specification states it fails: started without arguments, the script reads
  the files \<^verbatim>\<open>food_train.csv\<close> and \<^verbatim>\<open>food_trial.csv\<close> and finishes stage 1 with predictions
  and a report, without any error.
\<close>

theorem main_no_arguments_counterexample:
  "chooseFiles [''a3_kadakia_111304945.py''] = (''food_train.csv'', ''food_trial.csv'')
   \<and> main_stage1 toy_library [''a3_kadakia_111304945.py''] = Inr ([1, 1], 0, 0, 1)"
  by (simp add: main_stage1_def chooseFiles_def readCSV_food_train readCSV_food_trial
      bind_models_food_trial rate_trial_food)

text \<open>
  C4, as the script behaves.  For every invocation whose number of positional arguments
  is not two, the script takes \<^verbatim>\<open>food_train.csv\<close> and \<^verbatim>\<open>food_trial.csv\<close> as its files and runs
  exactly as it does when started with these two names as arguments.
\<close>

theorem main_default_files:
  assumes "length argv \<noteq> 3"
  shows "chooseFiles argv = (''food_train.csv'', ''food_trial.csv'')
         \<and> main_stage1 lib argv = main_stage1 lib [script, ''food_train.csv'', ''food_trial.csv'']"
  using assms by (auto simp: main_stage1_def chooseFiles_def)

theorem main_default_files_witness:
  "length [''a3_kadakia_111304945.py'', ''only_one.csv''] \<noteq> 3
   \<and> chooseFiles [''a3_kadakia_111304945.py'', ''only_one.csv''] = (''food_train.csv'', ''food_trial.csv'')
   \<and> main_stage1 toy_library [''a3_kadakia_111304945.py'', ''only_one.csv''] =
       main_stage1 toy_library [''a3_kadakia_111304945.py'', ''food_train.csv'', ''food_trial.csv'']"
proof -
  have n: "length [''a3_kadakia_111304945.py'', ''only_one.csv''] \<noteq> 3"
    by simp
  from main_default_files [OF n, of toy_library "''a3_kadakia_111304945.py''"] n
  show ?thesis by simp
qed

lemma bind_models_unrecognised:
  assumes "\<not> str_in ''food_'' trial_file" and "\<not> str_in ''music_'' trial_file"
    and "\<not> str_in ''musicAndPetsup_'' trial_file"
  shows "bind_models lib trial_file training_reviews trial_reviews = Inr None"
  using assms by (simp add: bind_models_def)

text \<open>
  C10 as stated fails for a trial file that cannot be read: the script stops in
  \<open>readCSV\<close>, before any model could be bound or used.
\<close>

theorem main_unbound_model_counterexample:
  "\<not> str_in ''food_'' ''missing.csv'' \<and> \<not> str_in ''music_'' ''missing.csv''
   \<and> \<not> str_in ''musicAndPetsup_'' ''missing.csv''
   \<and> main_stage1 toy_library [''a3_kadakia_111304945.py'', ''food_train.csv'', ''missing.csv''] =
       Inl (FileNotFoundError ''missing.csv'')"
  by (simp add: main_stage1_def chooseFiles_def readCSV_food_train)
     (simp add: readCSV_def toy_library_def toy_read_csv_def)

text \<open>
  C10, as the script behaves.  For every trial file whose name contains none of
  \<^verbatim>\<open>food_\<close>, \<^verbatim>\<open>music_\<close>, \<^verbatim>\<open>musicAndPetsup_\<close>: no embedding model is bound, whatever the
  files hold; the run always ends in an exception, which is either the one \<open>readCSV\<close>
  raised for one of the two files or the NameError for \<open>train_w2v_model\<close> at feature
  extraction.  When both files have been read, it is that NameError; when \<open>readCSV\<close>
  raises for the training file, it is that exception; and when the training file has
  been read and \<open>readCSV\<close> raises for the trial file, it is that exception.
\<close>

theorem main_unbound_model:
  assumes "chooseFiles argv = (training_file, trial_file)"
    and "\<not> str_in ''food_'' trial_file" and "\<not> str_in ''music_'' trial_file"
    and "\<not> str_in ''musicAndPetsup_'' trial_file"
  shows "(\<forall>training_reviews trial_reviews.
            bind_models lib trial_file training_reviews trial_reviews = Inr None)
         \<and> (\<exists>e. main_stage1 lib argv = Inl e
                \<and> (e = NameError ''train_w2v_model'' \<or> readCSV lib training_file = Inl e
                     \<or> readCSV lib trial_file = Inl e))
         \<and> (\<forall>training_data trial_data.
               readCSV lib training_file = Inr training_data \<longrightarrow>
               readCSV lib trial_file = Inr trial_data \<longrightarrow>
               main_stage1 lib argv = Inl (NameError ''train_w2v_model''))
         \<and> (\<forall>e. readCSV lib training_file = Inl e \<longrightarrow> main_stage1 lib argv = Inl e)
         \<and> (\<forall>training_data e.
               readCSV lib training_file = Inr training_data \<longrightarrow>
               readCSV lib trial_file = Inl e \<longrightarrow>
               main_stage1 lib argv = Inl e)"
proof -
  have unbound: "bind_models lib trial_file training_reviews trial_reviews = Inr None"
    for training_reviews trial_reviews
    using assms(2-4) by (rule bind_models_unrecognised)
  have "\<exists>e. main_stage1 lib argv = Inl e
          \<and> (e = NameError ''train_w2v_model'' \<or> readCSV lib training_file = Inl e
               \<or> readCSV lib trial_file = Inl e)"
    using assms(1) by (auto simp: main_stage1_def unbound split: sum.splits)
  moreover have "main_stage1 lib argv = Inl (NameError ''train_w2v_model'')"
    if "readCSV lib training_file = Inr training_data" "readCSV lib trial_file = Inr trial_data"
    for training_data trial_data
    using assms(1) that by (simp add: main_stage1_def unbound)
  moreover have "main_stage1 lib argv = Inl e" if "readCSV lib training_file = Inl e" for e
    using assms(1) that by (simp add: main_stage1_def)
  moreover have "main_stage1 lib argv = Inl e"
    if "readCSV lib training_file = Inr training_data" "readCSV lib trial_file = Inl e"
    for training_data e
    using assms(1) that by (simp add: main_stage1_def)
  ultimately show ?thesis
    using unbound by blast
qed

theorem main_unbound_model_witness:
  "chooseFiles [''a3_kadakia_111304945.py'', ''food_train.csv'', ''numbers.csv''] =
     (''food_train.csv'', ''numbers.csv'')
   \<and> \<not> str_in ''food_'' ''numbers.csv'' \<and> \<not> str_in ''music_'' ''numbers.csv''
   \<and> \<not> str_in ''musicAndPetsup_'' ''numbers.csv''
   \<and> readCSV toy_library ''food_train.csv'' =
       Inr ([1, 2, 4], [[''good'', ''product''], [''bad'', ''item''], [''average'']], [5, 1, 3])
   \<and> readCSV toy_library ''numbers.csv'' = Inr ([1], [[]], [5])
   \<and> main_stage1 toy_library [''a3_kadakia_111304945.py'', ''food_train.csv'', ''numbers.csv''] =
       Inl (NameError ''train_w2v_model'')"
proof -
  have files: "chooseFiles [''a3_kadakia_111304945.py'', ''food_train.csv'', ''numbers.csv''] =
     (''food_train.csv'', ''numbers.csv'')"
    by (simp add: chooseFiles_def)
  have no: "\<not> str_in ''food_'' ''numbers.csv''" "\<not> str_in ''music_'' ''numbers.csv''"
    "\<not> str_in ''musicAndPetsup_'' ''numbers.csv''"
    by simp_all
  from main_unbound_model [OF files no, of toy_library] readCSV_food_train readCSV_numbers
  have "main_stage1 toy_library [''a3_kadakia_111304945.py'', ''food_train.csv'', ''numbers.csv''] =
       Inl (NameError ''train_w2v_model'')"
    by blast
  with files no readCSV_food_train readCSV_numbers show ?thesis
    by simp
qed

section \<open>Properties of runPCAMatrix\<close>

lemma runPCAMatrix_Inr:
  "runPCAMatrix lib user_reps = Inr v_matrix \<longleftrightarrow>
     (\<exists>user_PCA. PCA_fit lib 3 (map snd user_reps) = Inr user_PCA
        \<and> PCA_transform lib user_PCA (map snd user_reps) = Inr v_matrix)"
  by (auto simp: runPCAMatrix_def split: sum.splits)

text \<open>
  C6.  For three users with the same averaged feature vector, \<open>runPCAMatrix\<close> returns
  the three projected rows and nothing else: the fitted transform \<open>user_PCA\<close> is not part
  of the result, so a caller has nothing to project further users with.
\<close>

theorem runPCAMatrix_returns_projection_only:
  "runPCAMatrix toy_library
     [(''u1'', replicate 128 (Finite 0)), (''u2'', replicate 128 (Finite 0)),
      (''u3'', replicate 128 (Finite 0))] =
   Inr [[0, 0, 0], [0, 0, 0], [0, 0, 0]]"
  by (simp add: runPCAMatrix_def toy_library_def numeral_3_eq_3)

end
